theory Spec2Isabelle
  imports Main
begin

section \<open>Python objects and the process around the settings singleton\<close>

text \<open>
  The module \<^verbatim>\<open>llama_index/settings.py\<close> holds a dataclass \<^verbatim>\<open>_Settings\<close> with seven
  optional fields, one property (getter and setter) per field, a few derived
  properties that delegate to an attribute of a field, and six module-level functions
  that prefer a legacy \<^verbatim>\<open>ServiceContext\<close> over the settings object.

  Every field holds a reference to a Python object. Objects live in a heap and are
  identified by their address, so that "the identical instance" is equality of
  references, and a write through one reference is seen through every other one.
  An object is its attribute dictionary: \<^verbatim>\<open>hasattr\<close>, attribute reads and attribute
  writes work on it.
\<close>

type_synonym ref = nat

datatype val = NoneV | IntV int | StrV string | RefV ref

type_synonym pyobj = "string \<rightharpoonup> val"

record world =
  heap :: "ref \<Rightarrow> pyobj"
  globals :: "string \<rightharpoonup> val"

datatype error = ValueError string | AttributeError string

definition hasattr :: "world \<Rightarrow> ref \<Rightarrow> string \<Rightarrow> bool" where
  "hasattr w r a = (case heap w r a of None \<Rightarrow> False | Some v \<Rightarrow> True)"

definition getattr :: "world \<Rightarrow> ref \<Rightarrow> string \<Rightarrow> error + val" where
  "getattr w r a = (case heap w r a of None \<Rightarrow> Inl (AttributeError a) | Some v \<Rightarrow> Inr v)"

definition setattr :: "world \<Rightarrow> ref \<Rightarrow> string \<Rightarrow> val \<Rightarrow> world" where
  "setattr w r a v = w\<lparr>heap := (heap w)(r := (heap w r)(a \<mapsto> v))\<rparr>"

subsection \<open>External collaborators\<close>

text \<open>
  The functions and constructors that \<^verbatim>\<open>settings.py\<close> imports from other modules
  (\<^verbatim>\<open>resolve_llm\<close>, \<^verbatim>\<open>resolve_embed_model\<close>, \<^verbatim>\<open>CallbackManager\<close>, \<^verbatim>\<open>get_tokenizer\<close>,
  \<^verbatim>\<open>set_global_tokenizer\<close>, \<^verbatim>\<open>SentenceSplitter\<close>, \<^verbatim>\<open>PromptHelper\<close>,
  \<^verbatim>\<open>PromptHelper.from_llm_metadata\<close>, the \<^verbatim>\<open>metadata\<close> property of an LLM and
  \<^verbatim>\<open>set_global_handler\<close>) are parameters of the model: each one is an arbitrary function
  on the world outside the settings object, returning the reference of the object it
  hands back. Their failure modes are not part of the model.
  Every call of one of them is recorded, in order, in the \<open>calls\<close> log of the state.
\<close>

datatype ext_call =
    Call_resolve_llm string
  | Call_resolve_embed_model string
  | Call_CallbackManager
  | Call_get_tokenizer
  | Call_set_global_tokenizer ref
  | Call_SentenceSplitter
  | Call_PromptHelper
  | Call_from_llm_metadata val
  | Call_set_global_handler string

record env =
  resolve_llm :: "string \<Rightarrow> world \<Rightarrow> ref \<times> world"
  resolve_embed_model :: "string \<Rightarrow> world \<Rightarrow> ref \<times> world"
  CallbackManager :: "world \<Rightarrow> ref \<times> world"
  get_tokenizer :: "world \<Rightarrow> ref \<times> world"
  set_global_tokenizer :: "ref \<Rightarrow> world \<Rightarrow> world"
  SentenceSplitter :: "world \<Rightarrow> ref \<times> world"
  PromptHelper :: "world \<Rightarrow> ref \<times> world"
  from_llm_metadata :: "val \<Rightarrow> world \<Rightarrow> ref \<times> world"
  metadata :: "world \<Rightarrow> ref \<Rightarrow> val"
  set_global_handler :: "string \<Rightarrow> world \<Rightarrow> world"

subsection \<open>The settings object\<close>

text \<open>
  The seven fields of the dataclass (\<^verbatim>\<open>_llm\<close> is \<open>u_llm\<close>, and so on), all \<^verbatim>\<open>None\<close>
  in a new instance, together with the world the instance lives in and the log of
  external calls.
\<close>

record state =
  u_llm :: "ref option"
  u_embed_model :: "ref option"
  u_callback_manager :: "ref option"
  u_tokenizer :: "ref option"
  u_node_parser :: "ref option"
  u_prompt_helper :: "ref option"
  u_transformations :: "ref list option"
  world :: world
  calls :: "ext_call list"

definition Settings :: "world \<Rightarrow> state" where
  "Settings w =
     \<lparr>u_llm = None, u_embed_model = None, u_callback_manager = None, u_tokenizer = None,
      u_node_parser = None, u_prompt_helper = None, u_transformations = None,
      world = w, calls = []\<rparr>"

definition call_ext :: "ext_call \<Rightarrow> (world \<Rightarrow> ref \<times> world) \<Rightarrow> state \<Rightarrow> ref \<times> state" where
  "call_ext c f s = (case f (world s) of (r, w) \<Rightarrow> (r, s\<lparr>world := w, calls := calls s @ [c]\<rparr>))"

subsubsection \<open>LLM\<close>

definition llm_get :: "env \<Rightarrow> state \<Rightarrow> ref \<times> state" where
  "llm_get E s =
     (case u_llm s of
        None \<Rightarrow>
          (case call_ext (Call_resolve_llm ''default'') (resolve_llm E ''default'') s of
             (r, s') \<Rightarrow> (r, s'\<lparr>u_llm := Some r\<rparr>))
      | Some r \<Rightarrow> (r, s))"

definition llm_set :: "ref \<Rightarrow> state \<Rightarrow> state" where
  "llm_set llm s = s\<lparr>u_llm := Some llm\<rparr>"

definition pydantic_program_mode_get :: "env \<Rightarrow> state \<Rightarrow> (error + val) \<times> state" where
  "pydantic_program_mode_get E s =
     (case llm_get E s of (l, s1) \<Rightarrow> (getattr (world s1) l ''pydantic_program_mode'', s1))"

definition pydantic_program_mode_set :: "env \<Rightarrow> val \<Rightarrow> state \<Rightarrow> state" where
  "pydantic_program_mode_set E pydantic_program_mode s =
     (case llm_get E s of
        (l, s1) \<Rightarrow> s1\<lparr>world := setattr (world s1) l ''pydantic_program_mode'' pydantic_program_mode\<rparr>)"

subsubsection \<open>Embedding\<close>

definition embed_model_get :: "env \<Rightarrow> state \<Rightarrow> ref \<times> state" where
  "embed_model_get E s =
     (case u_embed_model s of
        None \<Rightarrow>
          (case call_ext (Call_resolve_embed_model ''default'')
                  (resolve_embed_model E ''default'') s of
             (r, s') \<Rightarrow> (r, s'\<lparr>u_embed_model := Some r\<rparr>))
      | Some r \<Rightarrow> (r, s))"

definition embed_model_set :: "ref \<Rightarrow> state \<Rightarrow> state" where
  "embed_model_set embed_model s = s\<lparr>u_embed_model := Some embed_model\<rparr>"

subsubsection \<open>Callbacks\<close>

definition global_handler_get :: "state \<Rightarrow> (error + val) \<times> state" where
  "global_handler_get s =
     (case globals (world s) ''global_handler'' of
        None \<Rightarrow> (Inl (AttributeError ''global_handler''), s)
      | Some v \<Rightarrow> (Inr v, s))"

definition global_handler_set :: "env \<Rightarrow> string \<Rightarrow> state \<Rightarrow> state" where
  "global_handler_set E eval_mode s =
     s\<lparr>world := set_global_handler E eval_mode (world s),
       calls := calls s @ [Call_set_global_handler eval_mode]\<rparr>"

definition callback_manager_get :: "env \<Rightarrow> state \<Rightarrow> ref \<times> state" where
  "callback_manager_get E s =
     (case u_callback_manager s of
        None \<Rightarrow>
          (case call_ext Call_CallbackManager (CallbackManager E) s of
             (r, s') \<Rightarrow> (r, s'\<lparr>u_callback_manager := Some r\<rparr>))
      | Some r \<Rightarrow> (r, s))"

definition callback_manager_set :: "ref \<Rightarrow> state \<Rightarrow> state" where
  "callback_manager_set callback_manager s = s\<lparr>u_callback_manager := Some callback_manager\<rparr>"

subsubsection \<open>Tokenizer\<close>

definition tokenizer_get :: "env \<Rightarrow> state \<Rightarrow> ref \<times> state" where
  "tokenizer_get E s =
     (case u_tokenizer s of
        None \<Rightarrow>
          (case call_ext Call_get_tokenizer (get_tokenizer E) s of
             (r, s') \<Rightarrow> (r, s'\<lparr>u_tokenizer := Some r\<rparr>))
      | Some r \<Rightarrow> (r, s))"

definition tokenizer_set :: "env \<Rightarrow> ref \<Rightarrow> state \<Rightarrow> state" where
  "tokenizer_set E tokenizer s =
     (let s1 = s\<lparr>u_tokenizer := Some tokenizer\<rparr>
      in s1\<lparr>world := set_global_tokenizer E tokenizer (world s1),
            calls := calls s1 @ [Call_set_global_tokenizer tokenizer]\<rparr>)"

subsubsection \<open>Node parser\<close>

definition node_parser_get :: "env \<Rightarrow> state \<Rightarrow> ref \<times> state" where
  "node_parser_get E s =
     (case u_node_parser s of
        None \<Rightarrow>
          (case call_ext Call_SentenceSplitter (SentenceSplitter E) s of
             (r, s') \<Rightarrow> (r, s'\<lparr>u_node_parser := Some r\<rparr>))
      | Some r \<Rightarrow> (r, s))"

definition node_parser_set :: "ref \<Rightarrow> state \<Rightarrow> state" where
  "node_parser_set node_parser s = s\<lparr>u_node_parser := Some node_parser\<rparr>"

text \<open>
  The four chunk properties share one shape, with the attribute name and the message as
  the only difference. The getter evaluates \<^verbatim>\<open>self.node_parser\<close> for \<^verbatim>\<open>hasattr\<close> and
  once more for the read; the setter likewise. A state change made before the
  exception is raised stays.
\<close>

definition chunk_get :: "string \<Rightarrow> string \<Rightarrow> env \<Rightarrow> state \<Rightarrow> (error + val) \<times> state" where
  "chunk_get a msg E s =
     (case node_parser_get E s of
        (np, s1) \<Rightarrow>
          if hasattr (world s1) np a
          then (case node_parser_get E s1 of (np2, s2) \<Rightarrow> (getattr (world s2) np2 a, s2))
          else (Inl (ValueError msg), s1))"

definition chunk_set :: "string \<Rightarrow> string \<Rightarrow> env \<Rightarrow> int \<Rightarrow> state \<Rightarrow> (error + unit) \<times> state" where
  "chunk_set a msg E v s =
     (case node_parser_get E s of
        (np, s1) \<Rightarrow>
          if hasattr (world s1) np a
          then (case node_parser_get E s1 of
                  (np2, s2) \<Rightarrow> (Inr (), s2\<lparr>world := setattr (world s2) np2 a (IntV v)\<rparr>))
          else (Inl (ValueError msg), s1))"

definition chunk_size_get :: "env \<Rightarrow> state \<Rightarrow> (error + val) \<times> state" where
  "chunk_size_get =
     chunk_get ''chunk_size'' ''Configured node parser does not have chunk size.''"

definition chunk_size_set :: "env \<Rightarrow> int \<Rightarrow> state \<Rightarrow> (error + unit) \<times> state" where
  "chunk_size_set =
     chunk_set ''chunk_size'' ''Configured node parser does not have chunk size.''"

definition chunk_overlap_get :: "env \<Rightarrow> state \<Rightarrow> (error + val) \<times> state" where
  "chunk_overlap_get =
     chunk_get ''chunk_overlap'' ''Configured node parser does not have chunk overlap.''"

definition chunk_overlap_set :: "env \<Rightarrow> int \<Rightarrow> state \<Rightarrow> (error + unit) \<times> state" where
  "chunk_overlap_set =
     chunk_set ''chunk_overlap'' ''Configured node parser does not have chunk overlap.''"

subsubsection \<open>Node parser alias\<close>

definition text_splitter_get :: "env \<Rightarrow> state \<Rightarrow> ref \<times> state" where
  "text_splitter_get E s = node_parser_get E s"

definition text_splitter_set :: "ref \<Rightarrow> state \<Rightarrow> state" where
  "text_splitter_set text_splitter s = node_parser_set text_splitter s"

subsubsection \<open>Prompt helper\<close>

definition prompt_helper_get :: "env \<Rightarrow> state \<Rightarrow> ref \<times> state" where
  "prompt_helper_get E s =
     (case (u_llm s, u_prompt_helper s) of
        (Some l, None) \<Rightarrow>
          (case call_ext (Call_from_llm_metadata (metadata E (world s) l))
                  (from_llm_metadata E (metadata E (world s) l)) s of
             (r, s') \<Rightarrow> (r, s'\<lparr>u_prompt_helper := Some r\<rparr>))
      | (None, None) \<Rightarrow>
          (case call_ext Call_PromptHelper (PromptHelper E) s of
             (r, s') \<Rightarrow> (r, s'\<lparr>u_prompt_helper := Some r\<rparr>))
      | (l, Some p) \<Rightarrow> (p, s))"

definition prompt_helper_set :: "ref \<Rightarrow> state \<Rightarrow> state" where
  "prompt_helper_set prompt_helper s = s\<lparr>u_prompt_helper := Some prompt_helper\<rparr>"

definition num_output_get :: "env \<Rightarrow> state \<Rightarrow> (error + val) \<times> state" where
  "num_output_get E s =
     (case prompt_helper_get E s of (p, s1) \<Rightarrow> (getattr (world s1) p ''num_output'', s1))"

definition num_output_set :: "env \<Rightarrow> int \<Rightarrow> state \<Rightarrow> state" where
  "num_output_set E num_output s =
     (case prompt_helper_get E s of
        (p, s1) \<Rightarrow> s1\<lparr>world := setattr (world s1) p ''num_output'' (IntV num_output)\<rparr>)"

definition context_window_get :: "env \<Rightarrow> state \<Rightarrow> (error + val) \<times> state" where
  "context_window_get E s =
     (case prompt_helper_get E s of (p, s1) \<Rightarrow> (getattr (world s1) p ''context_window'', s1))"

definition context_window_set :: "env \<Rightarrow> int \<Rightarrow> state \<Rightarrow> state" where
  "context_window_set E context_window s =
     (case prompt_helper_get E s of
        (p, s1) \<Rightarrow> s1\<lparr>world := setattr (world s1) p ''context_window'' (IntV context_window)\<rparr>)"

subsubsection \<open>Transformations\<close>

definition transformations_get :: "env \<Rightarrow> state \<Rightarrow> ref list \<times> state" where
  "transformations_get E s =
     (case u_transformations s of
        None \<Rightarrow>
          (case node_parser_get E s of
             (np, s') \<Rightarrow> ([np], s'\<lparr>u_transformations := Some [np]\<rparr>))
      | Some ts \<Rightarrow> (ts, s))"

definition transformations_set :: "ref list \<Rightarrow> state \<Rightarrow> state" where
  "transformations_set transformations s = s\<lparr>u_transformations := Some transformations\<rparr>"

subsection \<open>Helper functions for migration\<close>

text \<open>
  \<^verbatim>\<open>ServiceContext\<close> is only imported for type checking; the helper functions read one
  attribute of it each.
\<close>

record service_context =
  llm :: ref
  embed_model :: ref
  callback_manager :: ref
  node_parser :: ref
  prompt_helper :: ref
  transformations :: "ref list"

definition llm_from_settings_or_context ::
  "env \<Rightarrow> state \<Rightarrow> service_context option \<Rightarrow> ref \<times> state" where
  "llm_from_settings_or_context E settings context =
     (case context of Some c \<Rightarrow> (llm c, settings) | None \<Rightarrow> llm_get E settings)"

definition embed_model_from_settings_or_context ::
  "env \<Rightarrow> state \<Rightarrow> service_context option \<Rightarrow> ref \<times> state" where
  "embed_model_from_settings_or_context E settings context =
     (case context of Some c \<Rightarrow> (embed_model c, settings) | None \<Rightarrow> embed_model_get E settings)"

definition callback_manager_from_settings_or_context ::
  "env \<Rightarrow> state \<Rightarrow> service_context option \<Rightarrow> ref \<times> state" where
  "callback_manager_from_settings_or_context E settings context =
     (case context of
        Some c \<Rightarrow> (callback_manager c, settings)
      | None \<Rightarrow> callback_manager_get E settings)"

definition node_parser_from_settings_or_context ::
  "env \<Rightarrow> state \<Rightarrow> service_context option \<Rightarrow> ref \<times> state" where
  "node_parser_from_settings_or_context E settings context =
     (case context of Some c \<Rightarrow> (node_parser c, settings) | None \<Rightarrow> node_parser_get E settings)"

definition prompt_helper_from_settings_or_context ::
  "env \<Rightarrow> state \<Rightarrow> service_context option \<Rightarrow> ref \<times> state" where
  "prompt_helper_from_settings_or_context E settings context =
     (case context of
        Some c \<Rightarrow> (prompt_helper c, settings)
      | None \<Rightarrow> prompt_helper_get E settings)"

definition transformations_from_settings_or_context ::
  "env \<Rightarrow> state \<Rightarrow> service_context option \<Rightarrow> ref list \<times> state" where
  "transformations_from_settings_or_context E settings context =
     (case context of
        Some c \<Rightarrow> (transformations c, settings)
      | None \<Rightarrow> transformations_get E settings)"

text \<open>
  The helper functions of the module, one name for each \<^verbatim>\<open>def\<close> after the singleton, in
  the order of the file, and the function each name stands for.
\<close>

datatype helper =
    Llm_from_settings_or_context
  | Embed_model_from_settings_or_context
  | Callback_manager_from_settings_or_context
  | Node_parser_from_settings_or_context
  | Prompt_helper_from_settings_or_context
  | Transformations_from_settings_or_context

definition helpers :: "helper list" where
  "helpers =
     [Llm_from_settings_or_context, Embed_model_from_settings_or_context,
      Callback_manager_from_settings_or_context, Node_parser_from_settings_or_context,
      Prompt_helper_from_settings_or_context, Transformations_from_settings_or_context]"

datatype resolved = Obj ref | Objs "ref list"

fun from_settings_or_context ::
  "helper \<Rightarrow> env \<Rightarrow> state \<Rightarrow> service_context option \<Rightarrow> resolved \<times> state" where
  "from_settings_or_context Llm_from_settings_or_context E s c =
     apfst Obj (llm_from_settings_or_context E s c)"
| "from_settings_or_context Embed_model_from_settings_or_context E s c =
     apfst Obj (embed_model_from_settings_or_context E s c)"
| "from_settings_or_context Callback_manager_from_settings_or_context E s c =
     apfst Obj (callback_manager_from_settings_or_context E s c)"
| "from_settings_or_context Node_parser_from_settings_or_context E s c =
     apfst Obj (node_parser_from_settings_or_context E s c)"
| "from_settings_or_context Prompt_helper_from_settings_or_context E s c =
     apfst Obj (prompt_helper_from_settings_or_context E s c)"
| "from_settings_or_context Transformations_from_settings_or_context E s c =
     apfst Objs (transformations_from_settings_or_context E s c)"

text \<open>The attribute of the context, and the property of the settings, behind each helper.\<close>

fun context_field :: "helper \<Rightarrow> service_context \<Rightarrow> resolved" where
  "context_field Llm_from_settings_or_context c = Obj (llm c)"
| "context_field Embed_model_from_settings_or_context c = Obj (embed_model c)"
| "context_field Callback_manager_from_settings_or_context c = Obj (callback_manager c)"
| "context_field Node_parser_from_settings_or_context c = Obj (node_parser c)"
| "context_field Prompt_helper_from_settings_or_context c = Obj (prompt_helper c)"
| "context_field Transformations_from_settings_or_context c = Objs (transformations c)"

fun settings_field :: "helper \<Rightarrow> env \<Rightarrow> state \<Rightarrow> resolved \<times> state" where
  "settings_field Llm_from_settings_or_context E s = apfst Obj (llm_get E s)"
| "settings_field Embed_model_from_settings_or_context E s = apfst Obj (embed_model_get E s)"
| "settings_field Callback_manager_from_settings_or_context E s =
     apfst Obj (callback_manager_get E s)"
| "settings_field Node_parser_from_settings_or_context E s = apfst Obj (node_parser_get E s)"
| "settings_field Prompt_helper_from_settings_or_context E s = apfst Obj (prompt_helper_get E s)"
| "settings_field Transformations_from_settings_or_context E s =
     apfst Objs (transformations_get E s)"

subsection \<open>Sequences of operations\<close>

text \<open>
  Every property access of the facade as an operation: a read of a property, or an
  assignment to it. \<open>exec\<close> gives the state after the operation (also when the
  operation raises), \<open>run\<close> the state after a sequence of them.
\<close>

datatype op =
    Get_llm | Set_llm ref
  | Get_pydantic_program_mode | Set_pydantic_program_mode val
  | Get_embed_model | Set_embed_model ref
  | Get_global_handler | Set_global_handler string
  | Get_callback_manager | Set_callback_manager ref
  | Get_tokenizer | Set_tokenizer ref
  | Get_node_parser | Set_node_parser ref
  | Get_chunk_size | Set_chunk_size int
  | Get_chunk_overlap | Set_chunk_overlap int
  | Get_text_splitter | Set_text_splitter ref
  | Get_prompt_helper | Set_prompt_helper ref
  | Get_num_output | Set_num_output int
  | Get_context_window | Set_context_window int
  | Get_transformations | Set_transformations "ref list"

fun exec :: "env \<Rightarrow> op \<Rightarrow> state \<Rightarrow> state" where
  "exec E Get_llm s = snd (llm_get E s)"
| "exec E (Set_llm v) s = llm_set v s"
| "exec E Get_pydantic_program_mode s = snd (pydantic_program_mode_get E s)"
| "exec E (Set_pydantic_program_mode v) s = pydantic_program_mode_set E v s"
| "exec E Get_embed_model s = snd (embed_model_get E s)"
| "exec E (Set_embed_model v) s = embed_model_set v s"
| "exec E Get_global_handler s = snd (global_handler_get s)"
| "exec E (Set_global_handler v) s = global_handler_set E v s"
| "exec E Get_callback_manager s = snd (callback_manager_get E s)"
| "exec E (Set_callback_manager v) s = callback_manager_set v s"
| "exec E Get_tokenizer s = snd (tokenizer_get E s)"
| "exec E (Set_tokenizer v) s = tokenizer_set E v s"
| "exec E Get_node_parser s = snd (node_parser_get E s)"
| "exec E (Set_node_parser v) s = node_parser_set v s"
| "exec E Get_chunk_size s = snd (chunk_size_get E s)"
| "exec E (Set_chunk_size v) s = snd (chunk_size_set E v s)"
| "exec E Get_chunk_overlap s = snd (chunk_overlap_get E s)"
| "exec E (Set_chunk_overlap v) s = snd (chunk_overlap_set E v s)"
| "exec E Get_text_splitter s = snd (text_splitter_get E s)"
| "exec E (Set_text_splitter v) s = text_splitter_set v s"
| "exec E Get_prompt_helper s = snd (prompt_helper_get E s)"
| "exec E (Set_prompt_helper v) s = prompt_helper_set v s"
| "exec E Get_num_output s = snd (num_output_get E s)"
| "exec E (Set_num_output v) s = num_output_set E v s"
| "exec E Get_context_window s = snd (context_window_get E s)"
| "exec E (Set_context_window v) s = context_window_set E v s"
| "exec E Get_transformations s = snd (transformations_get E s)"
| "exec E (Set_transformations v) s = transformations_set v s"

fun run :: "env \<Rightarrow> op list \<Rightarrow> state \<Rightarrow> state" where
  "run E [] s = s"
| "run E (x # xs) s = run E xs (exec E x s)"

subsection \<open>One concrete environment\<close>

text \<open>
  An instance of the external collaborators, for running the model on concrete inputs:
  every constructor returns a fixed address and stores the attributes of the object it
  builds; the metadata of an LLM is its \<^verbatim>\<open>metadata\<close> attribute; the tokenizer functions
  keep the process-wide tokenizer in the global \<^verbatim>\<open>global_tokenizer\<close>.
\<close>

definition demo_world :: world where
  "demo_world = \<lparr>heap = (\<lambda>r. Map.empty), globals = [''global_handler'' \<mapsto> NoneV]\<rparr>"

definition demo_env :: env where
  "demo_env =
     \<lparr>resolve_llm = (\<lambda>name w.
        (1, w\<lparr>heap := (heap w)(1 := [''metadata'' \<mapsto> IntV 4096,
                                       ''pydantic_program_mode'' \<mapsto> StrV ''default''])\<rparr>)),
      resolve_embed_model = (\<lambda>name w. (2, w)),
      CallbackManager = (\<lambda>w. (3, w)),
      get_tokenizer = (\<lambda>w.
        case globals w ''global_tokenizer'' of
          Some (RefV r) \<Rightarrow> (r, w)
        | _ \<Rightarrow> (4, w\<lparr>globals := (globals w)(''global_tokenizer'' \<mapsto> RefV 4)\<rparr>)),
      set_global_tokenizer = (\<lambda>t w. w\<lparr>globals := (globals w)(''global_tokenizer'' \<mapsto> RefV t)\<rparr>),
      SentenceSplitter = (\<lambda>w.
        (5, w\<lparr>heap := (heap w)(5 := [''chunk_size'' \<mapsto> IntV 1024,
                                       ''chunk_overlap'' \<mapsto> IntV 200])\<rparr>)),
      PromptHelper = (\<lambda>w.
        (6, w\<lparr>heap := (heap w)(6 := [''context_window'' \<mapsto> IntV 3900,
                                       ''num_output'' \<mapsto> IntV 256])\<rparr>)),
      from_llm_metadata = (\<lambda>m w.
        (7, w\<lparr>heap := (heap w)(7 := [''context_window'' \<mapsto> m,
                                       ''num_output'' \<mapsto> IntV 256])\<rparr>)),
      metadata = (\<lambda>w l. case heap w l ''metadata'' of Some v \<Rightarrow> v | None \<Rightarrow> NoneV),
      set_global_handler = (\<lambda>mode w.
        w\<lparr>globals := (globals w)(''global_handler'' \<mapsto> StrV mode)\<rparr>)\<rparr>"

text \<open>A state whose node parser (address 9) has a chunk size and no chunk overlap.\<close>

definition demo_state :: state where
  "demo_state =
     node_parser_set 9
       (Settings (demo_world\<lparr>heap := (heap demo_world)(9 := [''chunk_size'' \<mapsto> IntV 512])\<rparr>))"

subsection \<open>Fields, their assignments and their default rules\<close>

datatype field =
    F_llm | F_embed_model | F_callback_manager | F_tokenizer | F_node_parser
  | F_prompt_helper | F_transformations

text \<open>The content of a field, \<open>None\<close> while the field is \<^verbatim>\<open>None\<close>.\<close>

fun field_val :: "field \<Rightarrow> state \<Rightarrow> resolved option" where
  "field_val F_llm s = map_option Obj (u_llm s)"
| "field_val F_embed_model s = map_option Obj (u_embed_model s)"
| "field_val F_callback_manager s = map_option Obj (u_callback_manager s)"
| "field_val F_tokenizer s = map_option Obj (u_tokenizer s)"
| "field_val F_node_parser s = map_option Obj (u_node_parser s)"
| "field_val F_prompt_helper s = map_option Obj (u_prompt_helper s)"
| "field_val F_transformations s = map_option Objs (u_transformations s)"

text \<open>
  The field an operation assigns: the setter of each field, and the setter of
  \<^verbatim>\<open>text_splitter\<close>, which assigns \<^verbatim>\<open>node_parser\<close>.
\<close>

fun assigns :: "op \<Rightarrow> field option" where
  "assigns (Set_llm v) = Some F_llm"
| "assigns (Set_embed_model v) = Some F_embed_model"
| "assigns (Set_callback_manager v) = Some F_callback_manager"
| "assigns (Set_tokenizer v) = Some F_tokenizer"
| "assigns (Set_node_parser v) = Some F_node_parser"
| "assigns (Set_text_splitter v) = Some F_node_parser"
| "assigns (Set_prompt_helper v) = Some F_prompt_helper"
| "assigns (Set_transformations v) = Some F_transformations"
| "assigns x = None"

fun getter :: "field \<Rightarrow> op" where
  "getter F_llm = Get_llm"
| "getter F_embed_model = Get_embed_model"
| "getter F_callback_manager = Get_callback_manager"
| "getter F_tokenizer = Get_tokenizer"
| "getter F_node_parser = Get_node_parser"
| "getter F_prompt_helper = Get_prompt_helper"
| "getter F_transformations = Get_transformations"

text \<open>
  The external calls that make up the default rule of a field. The default of
  \<^verbatim>\<open>transformations\<close> is built from the node parser and calls nothing of its own.
\<close>

fun default_rule :: "field \<Rightarrow> ext_call \<Rightarrow> bool" where
  "default_rule F_llm (Call_resolve_llm n) = True"
| "default_rule F_embed_model (Call_resolve_embed_model n) = True"
| "default_rule F_callback_manager Call_CallbackManager = True"
| "default_rule F_tokenizer Call_get_tokenizer = True"
| "default_rule F_node_parser Call_SentenceSplitter = True"
| "default_rule F_prompt_helper Call_PromptHelper = True"
| "default_rule F_prompt_helper (Call_from_llm_metadata m) = True"
| "default_rule F c = False"

section \<open>Properties\<close>

subsection \<open>What a getter does to the state\<close>

lemma llm_get_cached: "u_llm s = Some v \<Longrightarrow> llm_get E s = (v, s)"
  by (simp add: llm_get_def)

lemma embed_model_get_cached: "u_embed_model s = Some v \<Longrightarrow> embed_model_get E s = (v, s)"
  by (simp add: embed_model_get_def)

lemma callback_manager_get_cached:
  "u_callback_manager s = Some v \<Longrightarrow> callback_manager_get E s = (v, s)"
  by (simp add: callback_manager_get_def)

lemma tokenizer_get_cached: "u_tokenizer s = Some v \<Longrightarrow> tokenizer_get E s = (v, s)"
  by (simp add: tokenizer_get_def)

lemma node_parser_get_cached: "u_node_parser s = Some v \<Longrightarrow> node_parser_get E s = (v, s)"
  by (simp add: node_parser_get_def)

lemma prompt_helper_get_cached: "u_prompt_helper s = Some v \<Longrightarrow> prompt_helper_get E s = (v, s)"
  by (simp add: prompt_helper_get_def split: option.splits)

lemma transformations_get_cached:
  "u_transformations s = Some v \<Longrightarrow> transformations_get E s = (v, s)"
  by (simp add: transformations_get_def)

lemma llm_get_fields:
  "u_llm (snd (llm_get E s)) = Some (fst (llm_get E s))"
  "u_embed_model (snd (llm_get E s)) = u_embed_model s"
  "u_callback_manager (snd (llm_get E s)) = u_callback_manager s"
  "u_tokenizer (snd (llm_get E s)) = u_tokenizer s"
  "u_node_parser (snd (llm_get E s)) = u_node_parser s"
  "u_prompt_helper (snd (llm_get E s)) = u_prompt_helper s"
  "u_transformations (snd (llm_get E s)) = u_transformations s"
  "calls (snd (llm_get E s)) =
     calls s @ (case u_llm s of None \<Rightarrow> [Call_resolve_llm ''default''] | Some v \<Rightarrow> [])"
  by (simp_all add: llm_get_def call_ext_def split_beta split: option.splits)

lemma embed_model_get_fields:
  "u_llm (snd (embed_model_get E s)) = u_llm s"
  "u_embed_model (snd (embed_model_get E s)) = Some (fst (embed_model_get E s))"
  "u_callback_manager (snd (embed_model_get E s)) = u_callback_manager s"
  "u_tokenizer (snd (embed_model_get E s)) = u_tokenizer s"
  "u_node_parser (snd (embed_model_get E s)) = u_node_parser s"
  "u_prompt_helper (snd (embed_model_get E s)) = u_prompt_helper s"
  "u_transformations (snd (embed_model_get E s)) = u_transformations s"
  "calls (snd (embed_model_get E s)) =
     calls s @ (case u_embed_model s of
                  None \<Rightarrow> [Call_resolve_embed_model ''default''] | Some v \<Rightarrow> [])"
  by (simp_all add: embed_model_get_def call_ext_def split_beta split: option.splits)

lemma callback_manager_get_fields:
  "u_llm (snd (callback_manager_get E s)) = u_llm s"
  "u_embed_model (snd (callback_manager_get E s)) = u_embed_model s"
  "u_callback_manager (snd (callback_manager_get E s)) = Some (fst (callback_manager_get E s))"
  "u_tokenizer (snd (callback_manager_get E s)) = u_tokenizer s"
  "u_node_parser (snd (callback_manager_get E s)) = u_node_parser s"
  "u_prompt_helper (snd (callback_manager_get E s)) = u_prompt_helper s"
  "u_transformations (snd (callback_manager_get E s)) = u_transformations s"
  "calls (snd (callback_manager_get E s)) =
     calls s @ (case u_callback_manager s of None \<Rightarrow> [Call_CallbackManager] | Some v \<Rightarrow> [])"
  by (simp_all add: callback_manager_get_def call_ext_def split_beta split: option.splits)

lemma tokenizer_get_fields:
  "u_llm (snd (tokenizer_get E s)) = u_llm s"
  "u_embed_model (snd (tokenizer_get E s)) = u_embed_model s"
  "u_callback_manager (snd (tokenizer_get E s)) = u_callback_manager s"
  "u_tokenizer (snd (tokenizer_get E s)) = Some (fst (tokenizer_get E s))"
  "u_node_parser (snd (tokenizer_get E s)) = u_node_parser s"
  "u_prompt_helper (snd (tokenizer_get E s)) = u_prompt_helper s"
  "u_transformations (snd (tokenizer_get E s)) = u_transformations s"
  "calls (snd (tokenizer_get E s)) =
     calls s @ (case u_tokenizer s of None \<Rightarrow> [Call_get_tokenizer] | Some v \<Rightarrow> [])"
  by (simp_all add: tokenizer_get_def call_ext_def split_beta split: option.splits)

lemma node_parser_get_fields:
  "u_llm (snd (node_parser_get E s)) = u_llm s"
  "u_embed_model (snd (node_parser_get E s)) = u_embed_model s"
  "u_callback_manager (snd (node_parser_get E s)) = u_callback_manager s"
  "u_tokenizer (snd (node_parser_get E s)) = u_tokenizer s"
  "u_node_parser (snd (node_parser_get E s)) = Some (fst (node_parser_get E s))"
  "u_prompt_helper (snd (node_parser_get E s)) = u_prompt_helper s"
  "u_transformations (snd (node_parser_get E s)) = u_transformations s"
  "calls (snd (node_parser_get E s)) =
     calls s @ (case u_node_parser s of None \<Rightarrow> [Call_SentenceSplitter] | Some v \<Rightarrow> [])"
  by (simp_all add: node_parser_get_def call_ext_def split_beta split: option.splits)

lemma prompt_helper_get_fields:
  "u_llm (snd (prompt_helper_get E s)) = u_llm s"
  "u_embed_model (snd (prompt_helper_get E s)) = u_embed_model s"
  "u_callback_manager (snd (prompt_helper_get E s)) = u_callback_manager s"
  "u_tokenizer (snd (prompt_helper_get E s)) = u_tokenizer s"
  "u_node_parser (snd (prompt_helper_get E s)) = u_node_parser s"
  "u_prompt_helper (snd (prompt_helper_get E s)) = Some (fst (prompt_helper_get E s))"
  "u_transformations (snd (prompt_helper_get E s)) = u_transformations s"
  "calls (snd (prompt_helper_get E s)) =
     calls s @ (case u_prompt_helper s of
                  Some p \<Rightarrow> []
                | None \<Rightarrow> (case u_llm s of
                     None \<Rightarrow> [Call_PromptHelper]
                   | Some l \<Rightarrow> [Call_from_llm_metadata (metadata E (world s) l)]))"
  by (simp_all add: prompt_helper_get_def call_ext_def split_beta split: option.splits)

lemma transformations_get_fields:
  "u_llm (snd (transformations_get E s)) = u_llm s"
  "u_embed_model (snd (transformations_get E s)) = u_embed_model s"
  "u_callback_manager (snd (transformations_get E s)) = u_callback_manager s"
  "u_tokenizer (snd (transformations_get E s)) = u_tokenizer s"
  "u_node_parser (snd (transformations_get E s)) =
     (case u_transformations s of
        None \<Rightarrow> Some (fst (node_parser_get E s)) | Some ts \<Rightarrow> u_node_parser s)"
  "u_prompt_helper (snd (transformations_get E s)) = u_prompt_helper s"
  "u_transformations (snd (transformations_get E s)) = Some (fst (transformations_get E s))"
  "calls (snd (transformations_get E s)) =
     (case u_transformations s of
        None \<Rightarrow> calls (snd (node_parser_get E s)) | Some ts \<Rightarrow> calls s)"
  by (simp_all add: transformations_get_def node_parser_get_fields split_beta
        split: option.splits)

lemmas get_fields = llm_get_fields embed_model_get_fields callback_manager_get_fields
  tokenizer_get_fields node_parser_get_fields prompt_helper_get_fields
  transformations_get_fields

lemmas get_cached = llm_get_cached embed_model_get_cached callback_manager_get_cached
  tokenizer_get_cached node_parser_get_cached prompt_helper_get_cached
  transformations_get_cached

text \<open>Reading a field twice: the second read finds the value of the first one.\<close>

lemma llm_get_again: "llm_get E (snd (llm_get E s)) = (fst (llm_get E s), snd (llm_get E s))"
  by (rule llm_get_cached) (rule llm_get_fields)

lemma embed_model_get_again:
  "embed_model_get E (snd (embed_model_get E s)) =
     (fst (embed_model_get E s), snd (embed_model_get E s))"
  by (rule embed_model_get_cached) (rule embed_model_get_fields)

lemma callback_manager_get_again:
  "callback_manager_get E (snd (callback_manager_get E s)) =
     (fst (callback_manager_get E s), snd (callback_manager_get E s))"
  by (rule callback_manager_get_cached) (rule callback_manager_get_fields)

lemma tokenizer_get_again:
  "tokenizer_get E (snd (tokenizer_get E s)) =
     (fst (tokenizer_get E s), snd (tokenizer_get E s))"
  by (rule tokenizer_get_cached) (rule tokenizer_get_fields)

lemma node_parser_get_again:
  "node_parser_get E (snd (node_parser_get E s)) =
     (fst (node_parser_get E s), snd (node_parser_get E s))"
  by (rule node_parser_get_cached) (rule node_parser_get_fields)

lemma prompt_helper_get_again:
  "prompt_helper_get E (snd (prompt_helper_get E s)) =
     (fst (prompt_helper_get E s), snd (prompt_helper_get E s))"
  by (rule prompt_helper_get_cached) (rule prompt_helper_get_fields)

lemma transformations_get_again:
  "transformations_get E (snd (transformations_get E s)) =
     (fst (transformations_get E s), snd (transformations_get E s))"
  by (rule transformations_get_cached) (rule transformations_get_fields)

subsection \<open>The state after a derived property\<close>

lemma chunk_get_eq:
  "chunk_get a msg E s =
     (if hasattr (world (snd (node_parser_get E s))) (fst (node_parser_get E s)) a
      then getattr (world (snd (node_parser_get E s))) (fst (node_parser_get E s)) a
      else Inl (ValueError msg),
      snd (node_parser_get E s))"
  by (simp add: chunk_get_def split_beta node_parser_get_again)

lemma chunk_set_eq:
  "chunk_set a msg E v s =
     (if hasattr (world (snd (node_parser_get E s))) (fst (node_parser_get E s)) a
      then (Inr (),
            (snd (node_parser_get E s))
              \<lparr>world := setattr (world (snd (node_parser_get E s)))
                         (fst (node_parser_get E s)) a (IntV v)\<rparr>)
      else (Inl (ValueError msg), snd (node_parser_get E s)))"
  by (simp add: chunk_set_def split_beta node_parser_get_again)


lemmas derived_state =
  pydantic_program_mode_get_def pydantic_program_mode_set_def global_handler_get_def
  global_handler_set_def chunk_size_get_def chunk_size_set_def chunk_overlap_get_def
  chunk_overlap_set_def chunk_get_eq chunk_set_eq text_splitter_get_def text_splitter_set_def
  num_output_get_def num_output_set_def context_window_get_def context_window_set_def

lemmas setter_defs = llm_set_def embed_model_set_def callback_manager_set_def
  tokenizer_set_def node_parser_set_def prompt_helper_set_def transformations_set_def

subsection \<open>One operation\<close>

lemma exec_keeps_field:
  "field_val F s \<noteq> None \<Longrightarrow> assigns x \<noteq> Some F \<Longrightarrow> field_val F (exec E x s) = field_val F s"
  by (cases F; cases x)
     (auto simp add: get_fields get_cached derived_state setter_defs split_beta
        split: option.splits)

lemma exec_stays_materialized:
  "field_val F s \<noteq> None \<Longrightarrow> field_val F (exec E x s) \<noteq> None"
  by (cases F; cases x)
     (auto simp add: get_fields get_cached derived_state setter_defs split_beta
        split: option.splits)

lemma exec_no_default_call:
  "field_val F s \<noteq> None \<Longrightarrow>
   filter (default_rule F) (calls (exec E x s)) = filter (default_rule F) (calls s)"
  by (cases F; cases x)
     (auto simp add: get_fields get_cached derived_state setter_defs split_beta
        split: option.splits)

lemma exec_getter_noop: "field_val F s \<noteq> None \<Longrightarrow> exec E (getter F) s = s"
  by (cases F) (auto simp add: get_cached)

subsection \<open>Sequences of operations\<close>

lemma run_keeps_field:
  "field_val F s \<noteq> None \<Longrightarrow> list_all (\<lambda>x. assigns x \<noteq> Some F) xs \<Longrightarrow>
   field_val F (run E xs s) = field_val F s"
proof (induction xs arbitrary: s)
  case Nil
  show ?case by simp
next
  case (Cons x xs)
  from Cons.prems have x: "assigns x \<noteq> Some F" and xs: "list_all (\<lambda>x. assigns x \<noteq> Some F) xs"
    by simp_all
  have step: "field_val F (exec E x s) = field_val F s"
    using Cons.prems(1) x by (rule exec_keeps_field)
  with Cons.prems(1) have "field_val F (exec E x s) \<noteq> None" by simp
  then have "field_val F (run E xs (exec E x s)) = field_val F (exec E x s)"
    using xs by (rule Cons.IH)
  with step show ?case by simp
qed

lemma run_stays_materialized:
  "field_val F s \<noteq> None \<Longrightarrow> field_val F (run E xs s) \<noteq> None"
proof (induction xs arbitrary: s)
  case Nil
  then show ?case by simp
next
  case (Cons x xs)
  have "field_val F (exec E x s) \<noteq> None"
    using Cons.prems by (rule exec_stays_materialized)
  then have "field_val F (run E xs (exec E x s)) \<noteq> None"
    by (rule Cons.IH)
  then show ?case by simp
qed

lemma run_no_default_call:
  "field_val F s \<noteq> None \<Longrightarrow>
   filter (default_rule F) (calls (run E xs s)) = filter (default_rule F) (calls s)"
proof (induction xs arbitrary: s)
  case Nil
  show ?case by simp
next
  case (Cons x xs)
  have "field_val F (exec E x s) \<noteq> None"
    using Cons.prems by (rule exec_stays_materialized)
  then have "filter (default_rule F) (calls (run E xs (exec E x s))) =
      filter (default_rule F) (calls (exec E x s))"
    by (rule Cons.IH)
  also have "\<dots> = filter (default_rule F) (calls s)"
    using Cons.prems by (rule exec_no_default_call)
  finally show ?case by simp
qed


section \<open>The claims\<close>

text \<open>
  C4. For every lazily initialised field and every value \<open>v\<close> of the field's type:
  assigning \<open>v\<close> to the property and then reading it returns \<open>v\<close>, and the read leaves
  the state as the assignment left it, so that no default is computed. (A setter takes
  an object of the field's type; \<^verbatim>\<open>None\<close> is not one.)
\<close>

theorem set_then_get:
  "llm_get E (llm_set v s) = (v, llm_set v s)
   \<and> embed_model_get E (embed_model_set v s) = (v, embed_model_set v s)
   \<and> callback_manager_get E (callback_manager_set v s) = (v, callback_manager_set v s)
   \<and> tokenizer_get E (tokenizer_set E v s) = (v, tokenizer_set E v s)
   \<and> node_parser_get E (node_parser_set v s) = (v, node_parser_set v s)
   \<and> prompt_helper_get E (prompt_helper_set v s) = (v, prompt_helper_set v s)
   \<and> transformations_get E (transformations_set vs s) = (vs, transformations_set vs s)"
  by (simp add: get_cached setter_defs)

text \<open>
  C10. \<^verbatim>\<open>text_splitter\<close> is an alias of \<^verbatim>\<open>node_parser\<close>: in every state its getter
  returns the same value and the same next state (so the same lazy default), and its
  setter gives the same state.
\<close>

theorem text_splitter_alias:
  "text_splitter_get E s = node_parser_get E s
   \<and> text_splitter_set v s = node_parser_set v s
   \<and> exec E Get_text_splitter s = exec E Get_node_parser s
   \<and> exec E (Set_text_splitter v) s = exec E (Set_node_parser v) s"
  by (simp add: text_splitter_get_def text_splitter_set_def)

text \<open>
  C9. The tokenizer setter stores the tokenizer in the field and also calls
  \<^verbatim>\<open>set_global_tokenizer\<close> with it, which changes the world outside the settings object;
  the setter of every other field (and of the alias \<^verbatim>\<open>text_splitter\<close>) makes no
  external call and leaves the world as it is.
\<close>

theorem tokenizer_set_global_effect:
  "u_tokenizer (tokenizer_set E t s) = Some t
   \<and> world (tokenizer_set E t s) = set_global_tokenizer E t (world s)
   \<and> calls (tokenizer_set E t s) = calls s @ [Call_set_global_tokenizer t]
   \<and> world (llm_set v s) = world s \<and> calls (llm_set v s) = calls s
   \<and> world (embed_model_set v s) = world s \<and> calls (embed_model_set v s) = calls s
   \<and> world (callback_manager_set v s) = world s \<and> calls (callback_manager_set v s) = calls s
   \<and> world (node_parser_set v s) = world s \<and> calls (node_parser_set v s) = calls s
   \<and> world (text_splitter_set v s) = world s \<and> calls (text_splitter_set v s) = calls s
   \<and> world (prompt_helper_set v s) = world s \<and> calls (prompt_helper_set v s) = calls s
   \<and> world (transformations_set vs s) = world s \<and> calls (transformations_set vs s) = calls s"
  by (simp add: setter_defs text_splitter_set_def)

text \<open>
  In the concrete environment the call is visible in the process-wide tokenizer: after
  assigning the tokenizer at address 8 to new settings, the global holds it.
\<close>

lemma tokenizer_set_global_example:
  "globals (world (tokenizer_set demo_env 8 (Settings demo_world))) ''global_tokenizer''
     = Some (RefV 8)
   \<and> globals (world (Settings demo_world)) ''global_tokenizer'' = None"
  by (simp add: tokenizer_set_def Settings_def demo_env_def demo_world_def)


text \<open>
  C3. In a state where a field is still \<^verbatim>\<open>None\<close>, reading it returns the object that
  the field's default rule builds (\<^verbatim>\<open>resolve_llm("default")\<close>,
  \<^verbatim>\<open>resolve_embed_model("default")\<close>, \<^verbatim>\<open>CallbackManager()\<close>, \<^verbatim>\<open>get_tokenizer()\<close>,
  \<^verbatim>\<open>SentenceSplitter()\<close>, \<^verbatim>\<open>PromptHelper()\<close> or \<^verbatim>\<open>PromptHelper.from_llm_metadata\<close> of the
  cached model, the one-element list of the node parser), stores it in the field and
  makes exactly the calls of that rule. In every state, reading a field a second time
  returns the same reference as the first read and leaves the state, and so the log of
  external calls, as the first read left it.
\<close>

theorem lazy_default_then_cached:
  "(u_llm s = None \<longrightarrow>
      fst (llm_get E s) = fst (resolve_llm E ''default'' (world s))
      \<and> u_llm (snd (llm_get E s)) = Some (fst (resolve_llm E ''default'' (world s)))
      \<and> calls (snd (llm_get E s)) = calls s @ [Call_resolve_llm ''default''])
   \<and> llm_get E (snd (llm_get E s)) = (fst (llm_get E s), snd (llm_get E s))
   \<and> (u_embed_model s = None \<longrightarrow>
      fst (embed_model_get E s) = fst (resolve_embed_model E ''default'' (world s))
      \<and> u_embed_model (snd (embed_model_get E s))
          = Some (fst (resolve_embed_model E ''default'' (world s)))
      \<and> calls (snd (embed_model_get E s)) = calls s @ [Call_resolve_embed_model ''default''])
   \<and> embed_model_get E (snd (embed_model_get E s))
       = (fst (embed_model_get E s), snd (embed_model_get E s))
   \<and> (u_callback_manager s = None \<longrightarrow>
      fst (callback_manager_get E s) = fst (CallbackManager E (world s))
      \<and> u_callback_manager (snd (callback_manager_get E s))
          = Some (fst (CallbackManager E (world s)))
      \<and> calls (snd (callback_manager_get E s)) = calls s @ [Call_CallbackManager])
   \<and> callback_manager_get E (snd (callback_manager_get E s))
       = (fst (callback_manager_get E s), snd (callback_manager_get E s))
   \<and> (u_tokenizer s = None \<longrightarrow>
      fst (tokenizer_get E s) = fst (get_tokenizer E (world s))
      \<and> u_tokenizer (snd (tokenizer_get E s)) = Some (fst (get_tokenizer E (world s)))
      \<and> calls (snd (tokenizer_get E s)) = calls s @ [Call_get_tokenizer])
   \<and> tokenizer_get E (snd (tokenizer_get E s))
       = (fst (tokenizer_get E s), snd (tokenizer_get E s))
   \<and> (u_node_parser s = None \<longrightarrow>
      fst (node_parser_get E s) = fst (SentenceSplitter E (world s))
      \<and> u_node_parser (snd (node_parser_get E s)) = Some (fst (SentenceSplitter E (world s)))
      \<and> calls (snd (node_parser_get E s)) = calls s @ [Call_SentenceSplitter])
   \<and> node_parser_get E (snd (node_parser_get E s))
       = (fst (node_parser_get E s), snd (node_parser_get E s))
   \<and> (u_prompt_helper s = None \<and> u_llm s = None \<longrightarrow>
      fst (prompt_helper_get E s) = fst (PromptHelper E (world s))
      \<and> u_prompt_helper (snd (prompt_helper_get E s)) = Some (fst (PromptHelper E (world s)))
      \<and> calls (snd (prompt_helper_get E s)) = calls s @ [Call_PromptHelper])
   \<and> (u_prompt_helper s = None \<and> u_llm s = Some l \<longrightarrow>
      fst (prompt_helper_get E s)
        = fst (from_llm_metadata E (metadata E (world s) l) (world s))
      \<and> u_prompt_helper (snd (prompt_helper_get E s))
          = Some (fst (from_llm_metadata E (metadata E (world s) l) (world s)))
      \<and> calls (snd (prompt_helper_get E s))
          = calls s @ [Call_from_llm_metadata (metadata E (world s) l)])
   \<and> prompt_helper_get E (snd (prompt_helper_get E s))
       = (fst (prompt_helper_get E s), snd (prompt_helper_get E s))
   \<and> (u_transformations s = None \<longrightarrow>
      fst (transformations_get E s) = [fst (node_parser_get E s)]
      \<and> u_transformations (snd (transformations_get E s)) = Some [fst (node_parser_get E s)]
      \<and> calls (snd (transformations_get E s)) = calls (snd (node_parser_get E s)))
   \<and> transformations_get E (snd (transformations_get E s))
       = (fst (transformations_get E s), snd (transformations_get E s))"
proof -
  have 1: "u_llm s = None \<longrightarrow>
      fst (llm_get E s) = fst (resolve_llm E ''default'' (world s))
      \<and> u_llm (snd (llm_get E s)) = Some (fst (resolve_llm E ''default'' (world s)))
      \<and> calls (snd (llm_get E s)) = calls s @ [Call_resolve_llm ''default'']"
    by (simp add: llm_get_def call_ext_def split_beta)
  have 2: "u_embed_model s = None \<longrightarrow>
      fst (embed_model_get E s) = fst (resolve_embed_model E ''default'' (world s))
      \<and> u_embed_model (snd (embed_model_get E s))
          = Some (fst (resolve_embed_model E ''default'' (world s)))
      \<and> calls (snd (embed_model_get E s)) = calls s @ [Call_resolve_embed_model ''default'']"
    by (simp add: embed_model_get_def call_ext_def split_beta)
  have 3: "u_callback_manager s = None \<longrightarrow>
      fst (callback_manager_get E s) = fst (CallbackManager E (world s))
      \<and> u_callback_manager (snd (callback_manager_get E s))
          = Some (fst (CallbackManager E (world s)))
      \<and> calls (snd (callback_manager_get E s)) = calls s @ [Call_CallbackManager]"
    by (simp add: callback_manager_get_def call_ext_def split_beta)
  have 4: "u_tokenizer s = None \<longrightarrow>
      fst (tokenizer_get E s) = fst (get_tokenizer E (world s))
      \<and> u_tokenizer (snd (tokenizer_get E s)) = Some (fst (get_tokenizer E (world s)))
      \<and> calls (snd (tokenizer_get E s)) = calls s @ [Call_get_tokenizer]"
    by (simp add: tokenizer_get_def call_ext_def split_beta)
  have 5: "u_node_parser s = None \<longrightarrow>
      fst (node_parser_get E s) = fst (SentenceSplitter E (world s))
      \<and> u_node_parser (snd (node_parser_get E s)) = Some (fst (SentenceSplitter E (world s)))
      \<and> calls (snd (node_parser_get E s)) = calls s @ [Call_SentenceSplitter]"
    by (simp add: node_parser_get_def call_ext_def split_beta)
  have 6: "u_prompt_helper s = None \<and> u_llm s = None \<longrightarrow>
      fst (prompt_helper_get E s) = fst (PromptHelper E (world s))
      \<and> u_prompt_helper (snd (prompt_helper_get E s)) = Some (fst (PromptHelper E (world s)))
      \<and> calls (snd (prompt_helper_get E s)) = calls s @ [Call_PromptHelper]"
    by (simp add: prompt_helper_get_def call_ext_def split_beta)
  have 7: "u_prompt_helper s = None \<and> u_llm s = Some l \<longrightarrow>
      fst (prompt_helper_get E s)
        = fst (from_llm_metadata E (metadata E (world s) l) (world s))
      \<and> u_prompt_helper (snd (prompt_helper_get E s))
          = Some (fst (from_llm_metadata E (metadata E (world s) l) (world s)))
      \<and> calls (snd (prompt_helper_get E s))
          = calls s @ [Call_from_llm_metadata (metadata E (world s) l)]"
    by (simp add: prompt_helper_get_def call_ext_def split_beta)
  have 8: "u_transformations s = None \<longrightarrow>
      fst (transformations_get E s) = [fst (node_parser_get E s)]
      \<and> u_transformations (snd (transformations_get E s)) = Some [fst (node_parser_get E s)]
      \<and> calls (snd (transformations_get E s)) = calls (snd (node_parser_get E s))"
    by (simp add: transformations_get_def split_beta)
  show ?thesis
    using 1 2 3 4 5 6 7 8 llm_get_again [of E s] embed_model_get_again [of E s]
      callback_manager_get_again [of E s] tokenizer_get_again [of E s]
      node_parser_get_again [of E s] prompt_helper_get_again [of E s]
      transformations_get_again [of E s]
    by blast
qed


theorem lazy_default_then_cached_witness:
  "u_llm (Settings demo_world) = None
   \<and> fst (llm_get demo_env (Settings demo_world)) = 1
   \<and> fst (llm_get demo_env (snd (llm_get demo_env (Settings demo_world)))) = 1
   \<and> calls (snd (llm_get demo_env (snd (llm_get demo_env (Settings demo_world)))))
       = [Call_resolve_llm ''default'']
   \<and> fst (embed_model_get demo_env (Settings demo_world)) = 2
   \<and> fst (callback_manager_get demo_env (Settings demo_world)) = 3
   \<and> fst (tokenizer_get demo_env (Settings demo_world)) = 4
   \<and> fst (node_parser_get demo_env (Settings demo_world)) = 5
   \<and> fst (prompt_helper_get demo_env (Settings demo_world)) = 6
   \<and> u_llm (llm_set 1 (Settings demo_world)) = Some 1
   \<and> fst (prompt_helper_get demo_env (llm_set 1 (Settings demo_world))) = 7
   \<and> fst (transformations_get demo_env (Settings demo_world)) = [5]"
  using lazy_default_then_cached [of "Settings demo_world" demo_env]
    lazy_default_then_cached [of "llm_set 1 (Settings demo_world)" demo_env 1]
  by (simp add: Settings_def demo_env_def demo_world_def llm_set_def llm_get_def
        node_parser_get_def call_ext_def)

text \<open>
  C6. While \<^verbatim>\<open>transformations\<close> is unset, reading it evaluates \<^verbatim>\<open>self.node_parser\<close>
  (which builds the default node parser if that field is unset too), returns the list
  with that one node parser and stores it; the node-parser field then holds the element
  of the list. Assigning \<^verbatim>\<open>transformations\<close> replaces the whole list, whatever it was.
\<close>

theorem transformations_default:
  "(u_transformations s = None \<longrightarrow>
      transformations_get E s
        = ([fst (node_parser_get E s)],
           (snd (node_parser_get E s))\<lparr>u_transformations := Some [fst (node_parser_get E s)]\<rparr>)
      \<and> u_node_parser (snd (transformations_get E s)) = Some (fst (node_parser_get E s))
      \<and> (u_node_parser s = None \<longrightarrow>
           fst (transformations_get E s) = [fst (SentenceSplitter E (world s))]))
   \<and> (u_transformations s = None \<and> u_node_parser s = Some np \<longrightarrow>
        fst (transformations_get E s) = [np])
   \<and> u_transformations (transformations_set ts s) = Some ts
   \<and> transformations_get E (transformations_set ts s) = (ts, transformations_set ts s)"
  by (simp add: transformations_get_def transformations_set_def node_parser_get_fields
        split_beta)
     (simp add: node_parser_get_def call_ext_def split_beta)

theorem transformations_default_witness:
  "u_transformations (Settings demo_world) = None
   \<and> u_node_parser (Settings demo_world) = None
   \<and> fst (transformations_get demo_env (Settings demo_world)) = [5]
   \<and> u_node_parser (snd (transformations_get demo_env (Settings demo_world))) = Some 5
   \<and> u_transformations demo_state = None \<and> u_node_parser demo_state = Some 9
   \<and> fst (transformations_get demo_env demo_state) = [9]
   \<and> fst (transformations_get demo_env (transformations_set [2, 3] demo_state)) = [2, 3]"
  using transformations_default [of "Settings demo_world" demo_env 0 "[]"]
    transformations_default [of demo_state demo_env 9 "[2, 3]"]
  by (simp add: Settings_def demo_env_def demo_world_def demo_state_def node_parser_set_def
        node_parser_get_def call_ext_def)

text \<open>
  C7. Once a field holds a value, no sequence of operations of the facade makes it
  \<^verbatim>\<open>None\<close> again or calls its default rule again; a sequence without an assignment to
  the field (through its setter, or through \<^verbatim>\<open>text_splitter\<close> for the node parser)
  leaves its value as it is; and reading the field afterwards changes nothing at all.
  The sequence of one operation is the step of the invariant.
\<close>

theorem materialized_never_redefaulted:
  assumes "field_val F s \<noteq> None"
  shows "(list_all (\<lambda>x. assigns x \<noteq> Some F) xs \<longrightarrow> field_val F (run E xs s) = field_val F s)
    \<and> field_val F (run E xs s) \<noteq> None
    \<and> filter (default_rule F) (calls (run E xs s)) = filter (default_rule F) (calls s)
    \<and> exec E (getter F) (run E xs s) = run E xs s
    \<and> (assigns x \<noteq> Some F \<longrightarrow> field_val F (exec E x s) = field_val F s)
    \<and> filter (default_rule F) (calls (exec E x s)) = filter (default_rule F) (calls s)"
proof -
  have m: "field_val F (run E xs s) \<noteq> None"
    using assms by (rule run_stays_materialized)
  have "exec E (getter F) (run E xs s) = run E xs s"
    using m by (rule exec_getter_noop)
  moreover have "filter (default_rule F) (calls (run E xs s)) = filter (default_rule F) (calls s)"
    using assms by (rule run_no_default_call)
  moreover have "filter (default_rule F) (calls (exec E x s)) = filter (default_rule F) (calls s)"
    using assms by (rule exec_no_default_call)
  ultimately show ?thesis
    using m assms by (simp add: run_keeps_field exec_keeps_field)
qed

theorem materialized_never_redefaulted_witness:
  "field_val F_node_parser demo_state \<noteq> None
   \<and> list_all (\<lambda>x. assigns x \<noteq> Some F_node_parser)
       [Get_transformations, Get_chunk_overlap, Set_chunk_size 64, Set_llm 1,
        Get_prompt_helper, Get_node_parser]
   \<and> field_val F_node_parser
       (run demo_env
          [Get_transformations, Get_chunk_overlap, Set_chunk_size 64, Set_llm 1,
           Get_prompt_helper, Get_node_parser] demo_state) = Some (Obj 9)
   \<and> filter (default_rule F_node_parser)
       (calls (run demo_env
          [Get_transformations, Get_chunk_overlap, Set_chunk_size 64, Set_llm 1,
           Get_prompt_helper, Get_node_parser] demo_state)) = []"
  using materialized_never_redefaulted [of F_node_parser demo_state
      "[Get_transformations, Get_chunk_overlap, Set_chunk_size 64, Set_llm 1,
        Get_prompt_helper, Get_node_parser]" demo_env Get_node_parser]
  by (simp add: demo_state_def node_parser_set_def Settings_def)


text \<open>
  C2. Let \<open>np\<close> be the active node parser, the one \<^verbatim>\<open>self.node_parser\<close> returns (the
  default one if the field was unset), and \<open>s1\<close> the state after that read. If \<open>np\<close>
  has no attribute \<^verbatim>\<open>chunk_size\<close>, the getter and the setter of \<^verbatim>\<open>chunk_size\<close> raise the
  error of the facade, which the source raises as \<^verbatim>\<open>ValueError\<close> with the message
  "Configured node parser does not have chunk size."; if it has one, the getter returns
  the attribute of \<open>np\<close> and the setter writes the new value into \<open>np\<close>, where the getter
  then reads it. The same holds for \<^verbatim>\<open>chunk_overlap\<close> with its own message.
\<close>

theorem chunk_properties:
  assumes "node_parser_get E s = (np, s1)"
  shows "(\<not> hasattr (world s1) np ''chunk_size'' \<longrightarrow>
        chunk_size_get E s
          = (Inl (ValueError ''Configured node parser does not have chunk size.''), s1)
        \<and> chunk_size_set E v s
          = (Inl (ValueError ''Configured node parser does not have chunk size.''), s1))
    \<and> (hasattr (world s1) np ''chunk_size'' \<longrightarrow>
        chunk_size_get E s = (Inr (the (heap (world s1) np ''chunk_size'')), s1)
        \<and> chunk_size_set E v s
          = (Inr (), s1\<lparr>world := setattr (world s1) np ''chunk_size'' (IntV v)\<rparr>)
        \<and> heap (world (snd (chunk_size_set E v s))) np ''chunk_size'' = Some (IntV v)
        \<and> chunk_size_get E (snd (chunk_size_set E v s))
          = (Inr (IntV v), snd (chunk_size_set E v s)))
    \<and> (\<not> hasattr (world s1) np ''chunk_overlap'' \<longrightarrow>
        chunk_overlap_get E s
          = (Inl (ValueError ''Configured node parser does not have chunk overlap.''), s1)
        \<and> chunk_overlap_set E v s
          = (Inl (ValueError ''Configured node parser does not have chunk overlap.''), s1))
    \<and> (hasattr (world s1) np ''chunk_overlap'' \<longrightarrow>
        chunk_overlap_get E s = (Inr (the (heap (world s1) np ''chunk_overlap'')), s1)
        \<and> chunk_overlap_set E v s
          = (Inr (), s1\<lparr>world := setattr (world s1) np ''chunk_overlap'' (IntV v)\<rparr>)
        \<and> heap (world (snd (chunk_overlap_set E v s))) np ''chunk_overlap'' = Some (IntV v)
        \<and> chunk_overlap_get E (snd (chunk_overlap_set E v s))
          = (Inr (IntV v), snd (chunk_overlap_set E v s)))"
proof -
  have np: "u_node_parser s1 = Some np"
    using node_parser_get_fields(5) [of E s] assms by simp
  have missing: "chunk_get a msg E s = (Inl (ValueError msg), s1)
      \<and> chunk_set a msg E v s = (Inl (ValueError msg), s1)"
    if "\<not> hasattr (world s1) np a" for a msg
    using that assms by (simp add: chunk_get_eq chunk_set_eq)
  have present: "chunk_get a msg E s = (Inr (the (heap (world s1) np a)), s1)
      \<and> chunk_set a msg E v s = (Inr (), s1\<lparr>world := setattr (world s1) np a (IntV v)\<rparr>)
      \<and> heap (world (snd (chunk_set a msg E v s))) np a = Some (IntV v)
      \<and> chunk_get a msg E (snd (chunk_set a msg E v s))
          = (Inr (IntV v), snd (chunk_set a msg E v s))"
    if h: "hasattr (world s1) np a" for a msg
  proof -
    from h obtain x where x: "heap (world s1) np a = Some x"
      by (auto simp add: hasattr_def split: option.splits)
    have g: "chunk_get a msg E s = (Inr (the (heap (world s1) np a)), s1)"
      using h x assms by (simp add: chunk_get_eq getattr_def)
    have st: "chunk_set a msg E v s
        = (Inr (), s1\<lparr>world := setattr (world s1) np a (IntV v)\<rparr>)"
      using h assms by (simp add: chunk_set_eq)
    let ?s2 = "s1\<lparr>world := setattr (world s1) np a (IntV v)\<rparr>"
    have w: "heap (world ?s2) np a = Some (IntV v)"
      by (simp add: setattr_def)
    have "node_parser_get E ?s2 = (np, ?s2)"
      using np by (simp add: node_parser_get_cached)
    then have "chunk_get a msg E ?s2 = (Inr (IntV v), ?s2)"
      using w by (simp add: chunk_get_eq hasattr_def getattr_def)
    with g st w show ?thesis by simp
  qed
  show ?thesis
    unfolding chunk_size_get_def chunk_size_set_def chunk_overlap_get_def
      chunk_overlap_set_def
    using missing [of "''chunk_size''"] missing [of "''chunk_overlap''"]
      present [of "''chunk_size''"] present [of "''chunk_overlap''"]
    by blast
qed

theorem chunk_properties_witness:
  "node_parser_get demo_env demo_state = (9, demo_state)
   \<and> hasattr (world demo_state) 9 ''chunk_size''
   \<and> \<not> hasattr (world demo_state) 9 ''chunk_overlap''
   \<and> chunk_size_get demo_env demo_state = (Inr (IntV 512), demo_state)
   \<and> fst (chunk_size_set demo_env 64 demo_state) = Inr ()
   \<and> fst (chunk_size_get demo_env (snd (chunk_size_set demo_env 64 demo_state)))
       = Inr (IntV 64)
   \<and> chunk_overlap_get demo_env demo_state
       = (Inl (ValueError ''Configured node parser does not have chunk overlap.''), demo_state)
   \<and> chunk_overlap_set demo_env 64 demo_state
       = (Inl (ValueError ''Configured node parser does not have chunk overlap.''), demo_state)"
proof -
  have n: "node_parser_get demo_env demo_state = (9, demo_state)"
    by (simp add: node_parser_get_def demo_state_def node_parser_set_def)
  have h1: "hasattr (world demo_state) 9 ''chunk_size''"
    by (simp add: hasattr_def demo_state_def node_parser_set_def Settings_def demo_world_def)
  have h2: "\<not> hasattr (world demo_state) 9 ''chunk_overlap''"
    by (simp add: hasattr_def demo_state_def node_parser_set_def Settings_def demo_world_def)
  have v: "heap (world demo_state) 9 ''chunk_size'' = Some (IntV 512)"
    by (simp add: demo_state_def node_parser_set_def Settings_def demo_world_def)
  note t = chunk_properties [OF n, of 64]
  from t h1 v have a: "chunk_size_get demo_env demo_state = (Inr (IntV 512), demo_state)"
    by simp
  from t h1 have b: "fst (chunk_size_set demo_env 64 demo_state) = Inr ()"
    by simp
  from t h1 have c:
    "fst (chunk_size_get demo_env (snd (chunk_size_set demo_env 64 demo_state)))
       = Inr (IntV 64)"
    by (metis fst_conv)
  from t h2 have d: "chunk_overlap_get demo_env demo_state
       = (Inl (ValueError ''Configured node parser does not have chunk overlap.''), demo_state)
    \<and> chunk_overlap_set demo_env 64 demo_state
       = (Inl (ValueError ''Configured node parser does not have chunk overlap.''), demo_state)"
    by blast
  from n h1 h2 a b c d show ?thesis by blast
qed

text \<open>
  The default node parser of the concrete environment has both attributes, so on new
  settings both getters succeed, after building it.
\<close>

lemma chunk_properties_default_example:
  "fst (chunk_size_get demo_env (Settings demo_world)) = Inr (IntV 1024)
   \<and> fst (chunk_overlap_get demo_env (Settings demo_world)) = Inr (IntV 200)
   \<and> u_node_parser (snd (chunk_size_get demo_env (Settings demo_world))) = Some 5"
  by (simp add: chunk_size_get_def chunk_overlap_get_def chunk_get_def node_parser_get_def
        call_ext_def hasattr_def getattr_def Settings_def demo_env_def demo_world_def)

text \<open>
  C5, as the code has it. The module defines six helper functions, not five: one each
  for \<^verbatim>\<open>llm\<close>, \<^verbatim>\<open>embed_model\<close>, \<^verbatim>\<open>callback_manager\<close>, \<^verbatim>\<open>node_parser\<close>,
  \<^verbatim>\<open>prompt_helper\<close> and \<^verbatim>\<open>transformations\<close>. Each of them returns the attribute of the
  context and leaves the settings untouched when a context is given, whatever the
  settings hold, and reads the property of the settings (with its lazy default) when the
  context is \<^verbatim>\<open>None\<close>.
\<close>

theorem six_helpers_prefer_context:
  "length helpers = 6 \<and> distinct helpers \<and> set helpers = UNIV
   \<and> from_settings_or_context h E s (Some c) = (context_field h c, s)
   \<and> from_settings_or_context h E s None = settings_field h E s"
proof -
  have "h' \<in> set helpers" for h'
    by (cases h') (simp_all add: helpers_def)
  then have "set helpers = UNIV" by blast
  moreover have "length helpers = 6 \<and> distinct helpers"
    by (simp add: helpers_def)
  moreover have "from_settings_or_context h E s (Some c) = (context_field h c, s)
      \<and> from_settings_or_context h E s None = settings_field h E s"
    by (cases h)
       (simp_all add: llm_from_settings_or_context_def
          embed_model_from_settings_or_context_def
          callback_manager_from_settings_or_context_def
          node_parser_from_settings_or_context_def
          prompt_helper_from_settings_or_context_def
          transformations_from_settings_or_context_def)
  ultimately show ?thesis by simp
qed

text \<open>
  C5 as stated fails on the count: the helper functions of the module are six distinct
  functions.
\<close>

theorem helpers_not_five: "card (set helpers) \<noteq> 5"
proof -
  have "distinct helpers" by (simp add: helpers_def)
  then have "card (set helpers) = length helpers" by (rule distinct_card)
  then show ?thesis by (simp add: helpers_def)
qed


text \<open>
  C1, as the code has it. The getter of \<^verbatim>\<open>prompt_helper\<close> looks at the field \<^verbatim>\<open>_llm\<close>,
  not at who filled it. While the prompt-helper field is unset: if the model field
  holds a model (because it was assigned, or because an earlier read of \<^verbatim>\<open>llm\<close> cached
  the default model), the read builds the helper with \<^verbatim>\<open>from_llm_metadata\<close> from the
  metadata of that model; if the model field is unset, it builds it with
  \<^verbatim>\<open>PromptHelper()\<close>. The helper then stays: after any sequence of operations without an
  assignment to \<^verbatim>\<open>prompt_helper\<close> (assignments to the model included) a read returns
  the same helper and calls no constructor.
\<close>

theorem prompt_helper_choice:
  assumes "u_prompt_helper s = None"
  shows "fst (prompt_helper_get E (llm_set l s))
        = fst (from_llm_metadata E (metadata E (world s) l) (world s))
    \<and> calls (snd (prompt_helper_get E (llm_set l s)))
        = calls s @ [Call_from_llm_metadata (metadata E (world s) l)]
    \<and> (u_llm s = Some l \<longrightarrow>
        fst (prompt_helper_get E s)
          = fst (from_llm_metadata E (metadata E (world s) l) (world s))
        \<and> calls (snd (prompt_helper_get E s))
          = calls s @ [Call_from_llm_metadata (metadata E (world s) l)])
    \<and> fst (prompt_helper_get E (snd (llm_get E s)))
        = fst (from_llm_metadata E
                 (metadata E (world (snd (llm_get E s))) (fst (llm_get E s)))
                 (world (snd (llm_get E s))))
    \<and> (u_llm s = None \<longrightarrow>
        fst (prompt_helper_get E s) = fst (PromptHelper E (world s))
        \<and> calls (snd (prompt_helper_get E s)) = calls s @ [Call_PromptHelper])
    \<and> (list_all (\<lambda>x. assigns x \<noteq> Some F_prompt_helper) xs \<longrightarrow>
        prompt_helper_get E (run E xs (snd (prompt_helper_get E s)))
          = (fst (prompt_helper_get E s), run E xs (snd (prompt_helper_get E s))))
    \<and> prompt_helper_get E (llm_set l' (snd (prompt_helper_get E s)))
        = (fst (prompt_helper_get E s), llm_set l' (snd (prompt_helper_get E s)))"
proof -
  have a: "fst (prompt_helper_get E (llm_set l s))
        = fst (from_llm_metadata E (metadata E (world s) l) (world s))
      \<and> calls (snd (prompt_helper_get E (llm_set l s)))
        = calls s @ [Call_from_llm_metadata (metadata E (world s) l)]"
    using assms by (simp add: prompt_helper_get_def llm_set_def call_ext_def split_beta)
  have b: "u_llm s = Some l \<longrightarrow>
        fst (prompt_helper_get E s)
          = fst (from_llm_metadata E (metadata E (world s) l) (world s))
        \<and> calls (snd (prompt_helper_get E s))
          = calls s @ [Call_from_llm_metadata (metadata E (world s) l)]"
    using assms by (simp add: prompt_helper_get_def call_ext_def split_beta)
  have c: "fst (prompt_helper_get E (snd (llm_get E s)))
        = fst (from_llm_metadata E
                 (metadata E (world (snd (llm_get E s))) (fst (llm_get E s)))
                 (world (snd (llm_get E s))))"
    using assms
    by (simp add: prompt_helper_get_def llm_get_fields call_ext_def split_beta)
  have d: "u_llm s = None \<longrightarrow>
        fst (prompt_helper_get E s) = fst (PromptHelper E (world s))
        \<and> calls (snd (prompt_helper_get E s)) = calls s @ [Call_PromptHelper]"
    using assms by (simp add: prompt_helper_get_def call_ext_def split_beta)
  let ?p = "fst (prompt_helper_get E s)" and ?s1 = "snd (prompt_helper_get E s)"
  have e: "prompt_helper_get E (run E xs ?s1) = (?p, run E xs ?s1)"
    if "list_all (\<lambda>x. assigns x \<noteq> Some F_prompt_helper) xs"
  proof -
    have "field_val F_prompt_helper ?s1 \<noteq> None"
      by (simp add: prompt_helper_get_fields)
    then have "field_val F_prompt_helper (run E xs ?s1) = field_val F_prompt_helper ?s1"
      using that by (rule run_keeps_field)
    then have "map_option Obj (u_prompt_helper (run E xs ?s1)) = Some (Obj ?p)"
      by (simp add: prompt_helper_get_fields)
    then have "u_prompt_helper (run E xs ?s1) = Some ?p" by auto
    then show ?thesis by (rule prompt_helper_get_cached)
  qed
  have f: "prompt_helper_get E (llm_set l' ?s1) = (?p, llm_set l' ?s1)"
    by (rule prompt_helper_get_cached) (simp add: llm_set_def prompt_helper_get_fields)
  from a b c d e f show ?thesis by blast
qed

theorem prompt_helper_choice_witness:
  "u_prompt_helper (Settings demo_world) = None
   \<and> u_llm (Settings demo_world) = None
   \<and> fst (prompt_helper_get demo_env (Settings demo_world)) = 6
   \<and> fst (prompt_helper_get demo_env (llm_set 1 (Settings demo_world))) = 7
   \<and> list_all (\<lambda>x. assigns x \<noteq> Some F_prompt_helper) [Set_llm 1, Get_llm, Get_num_output]
   \<and> fst (prompt_helper_get demo_env
        (run demo_env [Set_llm 1, Get_llm, Get_num_output]
           (snd (prompt_helper_get demo_env (Settings demo_world))))) = 6"
proof -
  have n: "u_prompt_helper (Settings demo_world) = None"
    by (simp add: Settings_def)
  note t = prompt_helper_choice [OF n, of demo_env 1 "[Set_llm 1, Get_llm, Get_num_output]" 1]
  have u: "u_llm (Settings demo_world) = None"
    by (simp add: Settings_def)
  have x: "list_all (\<lambda>x. assigns x \<noteq> Some F_prompt_helper) [Set_llm 1, Get_llm, Get_num_output]"
    by simp
  have p6: "fst (PromptHelper demo_env (world (Settings demo_world))) = 6"
    by (simp add: demo_env_def)
  have p7: "fst (from_llm_metadata demo_env (metadata demo_env (world (Settings demo_world)) 1)
              (world (Settings demo_world))) = 7"
    by (simp add: demo_env_def)
  from t u p6 have a: "fst (prompt_helper_get demo_env (Settings demo_world)) = 6"
    by simp
  from t p7 have b: "fst (prompt_helper_get demo_env (llm_set 1 (Settings demo_world))) = 7"
    by simp
  from t x a have c: "fst (prompt_helper_get demo_env
        (run demo_env [Set_llm 1, Get_llm, Get_num_output]
           (snd (prompt_helper_get demo_env (Settings demo_world))))) = 6"
    by (metis fst_conv)
  from n u a b x c show ?thesis by blast
qed

text \<open>
  C1 as stated fails where the model is read, never assigned, before the first read of
  \<^verbatim>\<open>prompt_helper\<close>: the read of \<^verbatim>\<open>llm\<close> caches the default model (address 1), and the
  helper is then built by \<^verbatim>\<open>from_llm_metadata\<close> from that model's metadata (address 7),
  not by \<^verbatim>\<open>PromptHelper()\<close> (which would give address 6).
\<close>

theorem prompt_helper_after_llm_read:
  "assigns Get_llm = None
   \<and> u_prompt_helper (run demo_env [Get_llm] (Settings demo_world)) = None
   \<and> fst (prompt_helper_get demo_env (run demo_env [Get_llm] (Settings demo_world))) = 7
   \<and> calls (snd (prompt_helper_get demo_env (run demo_env [Get_llm] (Settings demo_world))))
       = [Call_resolve_llm ''default'', Call_from_llm_metadata (IntV 4096)]
   \<and> fst (PromptHelper demo_env (world (run demo_env [Get_llm] (Settings demo_world)))) = 6"
  by (simp add: prompt_helper_get_def llm_get_def call_ext_def Settings_def demo_env_def
        demo_world_def)

end
